theory Spec2Isabelle
  imports Complex_Main
begin

section \<open>The relay of \<^verbatim>\<open>main.go\<close>\<close>

text \<open>
  \<^verbatim>\<open>main.go\<close> is a local HTTP relay: every route runs \<^verbatim>\<open>handleRequest\<close>, which
  validates the request, and \<^verbatim>\<open>runCurlCommand\<close>, which validates again, resolves the
  merchant's certificate and key (\<^verbatim>\<open>checkCertificates\<close>, \<^verbatim>\<open>findCertificateFiles\<close>),
  uploads them and then issues the operation's own call, both through \<^verbatim>\<open>curl\<close>.

  The functions below follow the source line by line. What the source obtains from the
  outside world (the request, the clock, the directory \<^verbatim>\<open>certs\<close>, \<^verbatim>\<open>os.Stat\<close>, the
  \<^verbatim>\<open>curl\<close> processes) and from the byte-level JSON codec is a field of the record
  \<open>env\<close>. Every function returns its result together with the list of effects it
  performed, in order, so that "no call was attempted" and "the upload comes first" are
  statements about that list. The two log lines and the \<^verbatim>\<open>fmt.Printf\<close> of the result are
  not effects any property here speaks of and are left out.
\<close>

subsection \<open>JSON values and Go errors\<close>

text \<open>
  The values \<^verbatim>\<open>json.Unmarshal\<close> stores into an \<^verbatim>\<open>any\<close>: nil, bool, float64, string,
  slice and map. The relay never looks inside a number; a float64 is represented by the
  real number it denotes. An object keeps its members in source order; the Go map built
  from it is \<open>map_of\<close> of the reversed list (the last duplicate wins).
\<close>

datatype json =
    JNull
  | JBool bool
  | JNumber real
  | JString string
  | JArray "json list"
  | JObject "(string \<times> json) list"

type_synonym jmap = "string \<rightharpoonup> json"

text \<open>A Go \<^verbatim>\<open>error\<close> is represented by its message, which is all the source uses.\<close>

type_synonym error = string

subsection \<open>\<^verbatim>\<open>strconv.Atoi\<close>\<close>

text \<open>
  \<^verbatim>\<open>strconv.Atoi(s)\<close> is \<^verbatim>\<open>ParseInt(s, 10, 0)\<close> (its fast path for short strings
  computes the same result): an optional sign, then \<^verbatim>\<open>ParseUint\<close> on the rest with
  64-bit cutoffs, then the signed range check. \<^verbatim>\<open>int\<close> is taken to be 64 bits wide.
\<close>

datatype numError = ErrSyntax | ErrRange

definition digit_of :: "char \<Rightarrow> nat option" where
  "digit_of c =
     (let n = (of_char c :: nat) in if 48 \<le> n \<and> n \<le> 57 then Some (n - 48) else None)"

definition maxUint64 :: nat where
  "maxUint64 = 2 ^ 64 - 1"

definition cutoff64 :: nat where
  "cutoff64 = maxUint64 div 10 + 1"

text \<open>The digit loop of \<^verbatim>\<open>ParseUint\<close> in base 10, \<open>n\<close> the value read so far.\<close>

fun parse_digits :: "nat \<Rightarrow> string \<Rightarrow> numError + nat" where
  "parse_digits n [] = Inr n"
| "parse_digits n (c # cs) =
     (case digit_of c of
        None \<Rightarrow> Inl ErrSyntax
      | Some d \<Rightarrow>
          if cutoff64 \<le> n then Inl ErrRange
          else if maxUint64 < n * 10 + d then Inl ErrRange
          else parse_digits (n * 10 + d) cs)"

definition ParseUint :: "string \<Rightarrow> numError + nat" where
  "ParseUint s = (if s = [] then Inl ErrSyntax else parse_digits 0 s)"

definition ParseInt :: "string \<Rightarrow> numError + int" where
  "ParseInt s =
     (case s of
        [] \<Rightarrow> Inl ErrSyntax
      | c # cs \<Rightarrow>
          (let neg = (c = CHR ''-'');
               s' = (if c = CHR ''+'' \<or> c = CHR ''-'' then cs else s)
           in case ParseUint s' of
                Inl e \<Rightarrow> Inl e
              | Inr un \<Rightarrow>
                  if \<not> neg \<and> 2 ^ 63 \<le> un then Inl ErrRange
                  else if neg \<and> 2 ^ 63 < un then Inl ErrRange
                  else Inr (if neg then - int un else int un)))"

definition Atoi :: "string \<Rightarrow> numError + int" where
  "Atoi s = ParseInt s"

subsection \<open>The outside world\<close>

text \<open>
  \<^item> \<open>json_value\<close>: the value a byte string denotes to \<^verbatim>\<open>json.Unmarshal\<close>; \<open>None\<close> when
    the bytes are not a JSON text or hold a number no float64 can store.
  \<^item> \<open>Marshal\<close>: \<^verbatim>\<open>json.Marshal\<close> of a Go map, the bytes or the error.
  \<^item> \<open>now\<close>: \<^verbatim>\<open>time.Now().Format("2006-01-02T15:04:05.000")\<close>.
  \<^item> \<open>certs_dir\<close>: the names of the entries of the directory \<^verbatim>\<open>certs\<close> (none when it
    is missing or unreadable, which \<^verbatim>\<open>filepath.Glob\<close> ignores).
  \<^item> \<open>glob_other\<close>: \<^verbatim>\<open>filepath.Glob\<close> on every pattern that is not
    \<^verbatim>\<open>certs/<literal>*<literal>\<close>.
  \<^item> \<open>stat_not_exist\<close>: whether \<^verbatim>\<open>os.IsNotExist\<close> holds of the error of \<^verbatim>\<open>os.Stat\<close>.
  \<^item> \<open>curl\<close>: \<^verbatim>\<open>exec.Command("curl", args...).Output()\<close>, the captured standard output
    and the error, if any.
\<close>

record env =
  json_value :: "string \<Rightarrow> json option"
  Marshal :: "jmap \<Rightarrow> error + string"
  now :: string
  certs_dir :: "string list"
  glob_other :: "string \<Rightarrow> error + string list"
  stat_not_exist :: "string \<Rightarrow> bool"
  curl :: "string list \<Rightarrow> string \<times> error option"

datatype event =
    EvGlob string
  | EvStat string
  | EvExec "string list"

subsection \<open>\<^verbatim>\<open>json.Unmarshal\<close> into a \<^verbatim>\<open>map[string]any\<close>\<close>

text \<open>
  An object fills the map; \<^verbatim>\<open>null\<close> leaves the nil map as it is and is no error; any
  other value is an \<^verbatim>\<open>UnmarshalTypeError\<close>. A nil map and an empty map answer every
  lookup alike, so both are \<open>Map.empty\<close>.
\<close>

definition Unmarshal :: "env \<Rightarrow> string \<Rightarrow> error + jmap" where
  "Unmarshal env data =
     (case json_value env data of
        None \<Rightarrow> Inl ''invalid JSON text''
      | Some (JObject members) \<Rightarrow> Inr (map_of (rev members))
      | Some JNull \<Rightarrow> Inr Map.empty
      | Some _ \<Rightarrow> Inl ''json: cannot unmarshal into Go value of type map[string]interface {}'')"

subsection \<open>\<^verbatim>\<open>filepath.Join\<close> and \<^verbatim>\<open>filepath.Glob\<close>\<close>

text \<open>
  \<^verbatim>\<open>Join\<close> puts a separator between its arguments and cleans the result; cleaning
  changes nothing when the second argument holds no separator, which is the case the
  properties below are about (a \<^verbatim>\<open>crn\<close> that \<^verbatim>\<open>Atoi\<close> accepted).
\<close>

definition Join :: "string \<Rightarrow> string \<Rightarrow> string" where
  "Join dir name = dir @ ''/'' @ name"

definition hasMeta :: "string \<Rightarrow> bool" where
  "hasMeta p =
     list_ex (\<lambda>c. c = CHR ''*'' \<or> c = CHR ''?'' \<or> c = CHR ''['' \<or> c = CHR 0x5C) p"

definition plain :: "string \<Rightarrow> bool" where
  "plain s = (\<not> hasMeta s \<and> \<not> list_ex (\<lambda>c. c = CHR ''/'') s)"

text \<open>
  A pattern \<^verbatim>\<open>certs/<pre>*<suf>\<close> whose two literals hold neither a metacharacter nor
  a separator; for it \<^verbatim>\<open>Glob\<close> lists \<^verbatim>\<open>certs\<close> and keeps the names that begin with
  \<open>pre\<close>, end with \<open>suf\<close> and have no separator in between (\<^verbatim>\<open>*\<close> matches any run
  of non-separator bytes), each joined to the directory. \<^verbatim>\<open>Glob\<close> returns them sorted;
  the source reads a result only when it has exactly one element, so the order of
  \<open>certs_dir\<close> is kept as it is. Every other pattern, in particular a malformed one
  (\<^verbatim>\<open>ErrBadPattern\<close>), is left to \<open>glob_other\<close>.
\<close>

definition star_pattern :: "string \<Rightarrow> (string \<times> string) option" where
  "star_pattern pattern =
     (if take 6 pattern = ''certs/'' then
        (let rest = drop 6 pattern;
             pre = takeWhile (\<lambda>c. c \<noteq> CHR ''*'') rest
         in case dropWhile (\<lambda>c. c \<noteq> CHR ''*'') rest of
              [] \<Rightarrow> None
            | _ # suf \<Rightarrow> if plain pre \<and> plain suf then Some (pre, suf) else None)
      else None)"

definition Match_star :: "string \<Rightarrow> string \<Rightarrow> string \<Rightarrow> bool" where
  "Match_star pre suf name =
     (length pre + length suf \<le> length name \<and>
      take (length pre) name = pre \<and>
      drop (length name - length suf) name = suf \<and>
      \<not> list_ex (\<lambda>c. c = CHR ''/'') name)"

definition Glob :: "env \<Rightarrow> string \<Rightarrow> error + string list" where
  "Glob env pattern =
     (case star_pattern pattern of
        Some (pre, suf) \<Rightarrow>
          Inr (map (Join ''certs'') (filter (Match_star pre suf) (certs_dir env)))
      | None \<Rightarrow> glob_other env pattern)"

subsection \<open>The program\<close>

definition baseURL :: string where
  "baseURL = ''https://ecrm.taxservice.am/taxsystem-rs-vcr/api/v1.0/''"

definition routes :: "string list" where
  "routes =
     [''checkConnection'', ''activate'', ''configureDepartments'', ''getGoodList'',
      ''print'', ''printCopy'', ''getReturnedReceiptInfo'', ''printReturnReceipt'',
      ''uploadCertificate'']"

definition endpoints :: "string \<rightharpoonup> string" where
  "endpoints = map_of (map (\<lambda>k. (k, k)) routes)"

definition findCertificateFiles ::
  "env \<Rightarrow> string \<Rightarrow> (error + string \<times> string) \<times> event list" where
  "findCertificateFiles env crn =
     (let certFileCrt = Join ''certs'' (crn @ ''*.crt'');
          keyFileKey = Join ''certs'' (crn @ ''*.key'')
      in case Glob env certFileCrt of
           Inl err \<Rightarrow> (Inl err, [EvGlob certFileCrt])
         | Inr certFiles \<Rightarrow>
             (case Glob env keyFileKey of
                Inl err \<Rightarrow> (Inl err, [EvGlob certFileCrt, EvGlob keyFileKey])
              | Inr keyFiles \<Rightarrow>
                  if length certFiles \<noteq> 1 \<or> length keyFiles \<noteq> 1
                  then (Inl (''certificate or key file not found or multiple files found for crn: '' @ crn),
                        [EvGlob certFileCrt, EvGlob keyFileKey])
                  else (Inr (certFiles ! 0, keyFiles ! 0),
                        [EvGlob certFileCrt, EvGlob keyFileKey])))"

definition upload_args :: "string \<Rightarrow> string \<Rightarrow> string \<Rightarrow> string list" where
  "upload_args certPath keyPath crn =
     [''curl'', ''-X'', ''POST'',
      baseURL @ ''uploadCertificate'',
      ''-H'', ''Content-Type: multipart/form-data'',
      ''-F'', ''certificate=@'' @ certPath,
      ''-F'', ''key=@'' @ keyPath,
      ''-F'', ''crn='' @ crn]"

definition checkCertificates ::
  "env \<Rightarrow> string \<Rightarrow> (error + string \<times> string) \<times> event list" where
  "checkCertificates env crn =
     (case findCertificateFiles env crn of
        (Inl err, t) \<Rightarrow> (Inl err, t)
      | (Inr (certPath, keyPath), t) \<Rightarrow>
          if stat_not_exist env certPath
          then (Inl (''certificate file not found: '' @ certPath), t @ [EvStat certPath])
          else if stat_not_exist env keyPath
          then (Inl (''key file not found: '' @ keyPath),
                t @ [EvStat certPath, EvStat keyPath])
          else
            (let virtualHdm = upload_args certPath keyPath crn;
                 t' = t @ [EvStat certPath, EvStat keyPath, EvExec virtualHdm]
             in case curl env virtualHdm of
                  (output, Some err) \<Rightarrow>
                    (Inl (''error uploading certificates: '' @ err @
                          ''\<newline>Response:\<newline>'' @ output), t')
                | (output, None) \<Rightarrow> (Inr (certPath, keyPath), t')))"

definition primary_args :: "string \<Rightarrow> string \<Rightarrow> string \<Rightarrow> string \<Rightarrow> string list" where
  "primary_args endpoint certPath keyPath jsonBytes =
     [''curl'', ''-X'', ''POST'',
      baseURL @ endpoint,
      ''-H'', ''Content-Type: application/json'',
      ''--cert'', certPath,
      ''--key'', keyPath,
      ''-d'', jsonBytes]"

definition runCurlCommand ::
  "env \<Rightarrow> string \<Rightarrow> jmap \<Rightarrow> (error + string) \<times> event list" where
  "runCurlCommand env endpointKey jsonData =
     (case endpoints endpointKey of
        None \<Rightarrow> (Inl (''unknown endpoint '' @ endpointKey), [])
      | Some endpoint \<Rightarrow>
          (case Marshal env jsonData of
             Inl err \<Rightarrow> (Inl (''JSON encoding error: '' @ err), [])
           | Inr jsonBytes \<Rightarrow>
               (case jsonData ''crn'' of
                  None \<Rightarrow> (Inl ''field 'crn' is missing'', [])
                | Some (JString crn) \<Rightarrow>
                    (case Atoi crn of
                       Inl _ \<Rightarrow> (Inl ''field 'crn' must contain only numbers'', [])
                     | Inr _ \<Rightarrow>
                         (case checkCertificates env crn of
                            (Inl err, t) \<Rightarrow> (Inl err, t)
                          | (Inr (certPath, keyPath), t) \<Rightarrow>
                              (let virtualHdm = primary_args endpoint certPath keyPath jsonBytes
                               in case curl env virtualHdm of
                                    (output, Some err) \<Rightarrow>
                                      (Inl (''error in '' @ endpointKey @ '': '' @ err @
                                            ''\<newline>Response:\<newline>'' @ output),
                                       t @ [EvExec virtualHdm])
                                  | (output, None) \<Rightarrow> (Inr output, t @ [EvExec virtualHdm]))))
                | Some _ \<Rightarrow> (Inl ''field 'crn' must be a string'', []))))"

text \<open>
  A request as \<^verbatim>\<open>handleRequest\<close> reads it: \<^verbatim>\<open>r.Method\<close>, \<^verbatim>\<open>r.URL.Path\<close> and the
  outcome of \<^verbatim>\<open>io.ReadAll(r.Body)\<close>. A response is what the handler asked the
  \<^verbatim>\<open>ResponseWriter\<close> for: \<^verbatim>\<open>http.Error(w, msg, code)\<close>, which sends the status and the
  message as one line of plain text, or \<^verbatim>\<open>w.WriteHeader(code)\<close> followed by
  \<^verbatim>\<open>w.Write(bytes)\<close>. The \<^verbatim>\<open>Content-Type\<close> the source sets after \<^verbatim>\<open>WriteHeader\<close>
  comes too late to be sent and is not part of the response.
\<close>

record request =
  req_method :: string
  req_path :: string
  req_body :: "error + string"

datatype response =
    HttpError string nat
  | Written nat string

fun status :: "response \<Rightarrow> nat" where
  "status (HttpError msg code) = code"
| "status (Written code bytes) = code"

fun body :: "response \<Rightarrow> string" where
  "body (HttpError msg code) = msg @ ''\<newline>''"
| "body (Written code bytes) = bytes"

definition errorResponse :: "string \<Rightarrow> string \<Rightarrow> jmap" where
  "errorResponse currentTime path =
     [''timestamp'' \<mapsto> JString currentTime,
      ''status'' \<mapsto> JNumber 405,
      ''error'' \<mapsto> JString ''Method Not Allowed'',
      ''message'' \<mapsto> JString ''Request method 'GET' not supported'',
      ''path'' \<mapsto> JString path]"

definition handleRequest :: "env \<Rightarrow> request \<Rightarrow> string \<Rightarrow> response \<times> event list" where
  "handleRequest env r endpointKey =
     (if req_method r \<noteq> ''POST'' then
        (let currentTime = now env @ ''+0000''
         in case Marshal env (errorResponse currentTime (req_path r)) of
              Inl err \<Rightarrow> (HttpError ''Error marshaling JSON'' 500, [])
            | Inr jsonResponse \<Rightarrow> (Written 405 jsonResponse, []))
      else
        (case req_body r of
           Inl err \<Rightarrow> (HttpError ''Error reading request body'' 400, [])
         | Inr bytes \<Rightarrow>
             (case Unmarshal env bytes of
                Inl err \<Rightarrow> (HttpError ''Invalid JSON'' 400, [])
              | Inr jsonData \<Rightarrow>
                  (case jsonData ''crn'' of
                     None \<Rightarrow> (HttpError ''Field 'crn' is missing'' 400, [])
                   | Some (JString crn) \<Rightarrow>
                       (case Atoi crn of
                          Inl _ \<Rightarrow> (HttpError ''Field 'crn' must contain only numbers'' 400, [])
                        | Inr _ \<Rightarrow>
                            (case runCurlCommand env endpointKey jsonData of
                               (Inl err, t) \<Rightarrow>
                                 (HttpError (''Error processing request: '' @ err) 500, t)
                             | (Inr response, t) \<Rightarrow> (Written 200 response, t)))
                   | Some _ \<Rightarrow> (HttpError ''Field 'crn' must be a string'' 400, [])))))"

subsection \<open>Vocabulary of the properties\<close>

text \<open>
  A decimal digit, the value of a digit string, and a string without one leading sign:
  the words in which the properties about \<^verbatim>\<open>crn\<close> are stated.
\<close>

definition is_digit :: "char \<Rightarrow> bool" where
  "is_digit c = (digit_of c \<noteq> None)"

definition digit_step :: "nat \<Rightarrow> char \<Rightarrow> nat" where
  "digit_step n c = n * 10 + (case digit_of c of None \<Rightarrow> 0 | Some d \<Rightarrow> d)"

definition dec_value :: "string \<Rightarrow> nat" where
  "dec_value s = foldl digit_step 0 s"

definition strip_sign :: "string \<Rightarrow> string" where
  "strip_sign s =
     (case s of [] \<Rightarrow> [] | c # cs \<Rightarrow> if c = CHR ''+'' \<or> c = CHR ''-'' then cs else s)"

subsection \<open>An example world\<close>

text \<open>
  A credential store with one pair for merchant 1234, two certificates for merchant 555
  and nothing for anyone else; an upstream that accepts the upload and the
  \<^verbatim>\<open>checkConnection\<close> call of merchant 1234 and refuses every other call; the codec on
  the request bodies the examples send (\<open>example_Marshal\<close> is \<^verbatim>\<open>json.Marshal\<close> on the
  empty object, on objects whose only member is \<^verbatim>\<open>crn\<close>, and on the error object of
  the 405 response, with the keys in sorted order as Go writes them).
\<close>

definition example_bodies :: "(string \<times> json) list" where
  \<open>example_bodies =
     [(''{"crn":"1234"}'', JObject [(''crn'', JString ''1234'')]),
      (''{"crn":"12ab"}'', JObject [(''crn'', JString ''12ab'')]),
      (''{"crn":"-12"}'', JObject [(''crn'', JString ''-12'')]),
      (''{"crn":"9223372036854775808"}'', JObject [(''crn'', JString ''9223372036854775808'')]),
      (''{"crn":1234}'', JObject [(''crn'', JNumber 1234)]),
      (''{}'', JObject []),
      (''null'', JNull),
      (''[1]'', JArray [JNumber 1])]\<close>

definition example_Marshal :: "jmap \<Rightarrow> error + string" where
  \<open>example_Marshal m =
     (case m ''crn'' of
        Some (JString s) \<Rightarrow> Inr (''{"crn":"'' @ s @ ''"}'')
      | Some (JNumber x) \<Rightarrow>
          if x = 1234 then Inr ''{"crn":1234}'' else Inl ''json: unsupported type''
      | Some _ \<Rightarrow> Inl ''json: unsupported type''
      | None \<Rightarrow>
          (case m ''status'' of
             None \<Rightarrow> Inr ''{}''
           | Some _ \<Rightarrow>
               (case (m ''error'', m ''message'', m ''path'', m ''timestamp'') of
                  (Some (JString e), Some (JString msg), Some (JString p), Some (JString ts)) \<Rightarrow>
                    Inr (''{"error":"'' @ e @ ''","message":"'' @ msg @ ''","path":"'' @ p @
                         ''","status":405,"timestamp":"'' @ ts @ ''"}'')
                | _ \<Rightarrow> Inl ''json: unsupported type'')))\<close>

definition example_curl :: "string list \<Rightarrow> string \<times> error option" where
  \<open>example_curl args =
     (if args = upload_args ''certs/1234_shop.crt'' ''certs/1234_shop.key'' ''1234''
      then (''{"uploaded":true}'', None)
      else if args = primary_args ''checkConnection'' ''certs/1234_shop.crt''
                       ''certs/1234_shop.key'' ''{"crn":"1234"}''
      then (''{"connected":true}'', None)
      else (''refused'', Some ''exit status 7''))\<close>

definition example_env :: env where
  "example_env =
     \<lparr>json_value = map_of example_bodies,
      Marshal = example_Marshal,
      now = ''2026-01-02T03:04:05.000'',
      certs_dir = [''1234_shop.crt'', ''1234_shop.key'', ''555_a.crt'', ''555_b.crt'', ''555_a.key''],
      glob_other = (\<lambda>pattern. Inl ''syntax error in pattern''),
      stat_not_exist = (\<lambda>path. False),
      curl = example_curl\<rparr>"

definition post :: "string \<Rightarrow> string \<Rightarrow> request" where
  "post path bytes = \<lparr>req_method = ''POST'', req_path = path, req_body = Inr bytes\<rparr>"

subsection \<open>The calls in a list of effects\<close>

text \<open>The \<^verbatim>\<open>curl\<close> command lines among the effects, in the order they ran.\<close>

fun execs :: "event list \<Rightarrow> string list list" where
  "execs [] = []"
| "execs (EvExec args # t) = args # execs t"
| "execs (e # t) = execs t"


section \<open>Facts about the library models\<close>

subsection \<open>\<^verbatim>\<open>Atoi\<close>\<close>

lemma parse_digits_nondigit:
  "\<not> list_all is_digit cs \<Longrightarrow> \<exists>e. parse_digits n cs = Inl e"
proof (induction cs arbitrary: n)
  case Nil
  then show ?case by simp
next
  case (Cons c cs)
  show ?case
  proof (cases "digit_of c")
    case None
    then show ?thesis by simp
  next
    case (Some d)
    then have "is_digit c" by (simp add: is_digit_def)
    with Cons.prems have "\<not> list_all is_digit cs" by simp
    from Cons.IH [OF this] obtain e where "parse_digits (n * 10 + d) cs = Inl e" by blast
    with Some show ?thesis by simp
  qed
qed

lemma foldl_digit_step_mono: "n \<le> foldl digit_step n cs"
proof (induction cs arbitrary: n)
  case Nil
  show ?case by simp
next
  case (Cons c cs)
  have "n \<le> digit_step n c" by (simp add: digit_step_def)
  also have "\<dots> \<le> foldl digit_step (digit_step n c) cs" by (rule Cons.IH)
  finally show ?case by simp
qed

text \<open>On digits the loop computes the decimal value, or stops once it passes 64 bits.\<close>

lemma parse_digits_value:
  "list_all is_digit cs \<Longrightarrow> n \<le> maxUint64 \<Longrightarrow>
   parse_digits n cs =
     (if maxUint64 < foldl digit_step n cs then Inl ErrRange else Inr (foldl digit_step n cs))"
proof (induction cs arbitrary: n)
  case Nil
  then show ?case by simp
next
  case (Cons c cs)
  from Cons.prems have "is_digit c" by simp
  then obtain d where d: "digit_of c = Some d" by (auto simp: is_digit_def)
  have step: "digit_step n c = n * 10 + d" by (simp add: digit_step_def d)
  have mono: "n * 10 + d \<le> foldl digit_step (n * 10 + d) cs" by (rule foldl_digit_step_mono)
  from Cons.prems have rest: "list_all is_digit cs" by simp
  show ?case
  proof (cases "cutoff64 \<le> n \<or> maxUint64 < n * 10 + d")
    case True
    then have "maxUint64 < n * 10 + d" by (auto simp: cutoff64_def maxUint64_def)
    with mono have "maxUint64 < foldl digit_step (n * 10 + d) cs" by linarith
    with True d step show ?thesis by auto
  next
    case False
    then have "n * 10 + d \<le> maxUint64" by simp
    from Cons.IH [OF rest this] False d step show ?thesis by auto
  qed
qed

lemma is_digit_not_sign: "is_digit c \<Longrightarrow> c \<noteq> CHR ''+'' \<and> c \<noteq> CHR ''-''"
  by (auto simp: is_digit_def digit_of_def)

lemma Atoi_nondigit:
  assumes "\<not> list_all is_digit (strip_sign s)"
  shows "\<exists>e. Atoi s = Inl e"
proof (cases s)
  case Nil
  with assms show ?thesis by (simp add: strip_sign_def)
next
  case (Cons c cs)
  define s' where "s' = (if c = CHR ''+'' \<or> c = CHR ''-'' then cs else s)"
  have s': "strip_sign s = s'" by (simp add: strip_sign_def s'_def Cons)
  with assms have nd: "\<not> list_all is_digit s'" by simp
  from parse_digits_nondigit [OF this, of 0] obtain e where "parse_digits 0 s' = Inl e" ..
  moreover from nd have "s' \<noteq> []" by auto
  ultimately have "ParseUint s' = Inl e" by (simp add: ParseUint_def)
  then show ?thesis
    unfolding Atoi_def ParseInt_def Cons s'_def by (simp add: Let_def)
qed

lemma Atoi_out_of_range:
  assumes ne: "s \<noteq> []" and dig: "list_all is_digit s" and big: "2 ^ 63 \<le> dec_value s"
  shows "Atoi s = Inl ErrRange"
proof -
  from ne obtain c cs where s: "s = c # cs" by (cases s) auto
  from dig s have "is_digit c" by simp
  then have c: "c \<noteq> CHR ''+''" "c \<noteq> CHR ''-''" using is_digit_not_sign by blast+
  have pd: "parse_digits 0 s =
      (if maxUint64 < dec_value s then Inl ErrRange else Inr (dec_value s))"
    unfolding dec_value_def by (rule parse_digits_value [OF dig]) simp
  have "ParseUint s = Inl ErrRange \<or> (\<exists>un. ParseUint s = Inr un \<and> 2 ^ 63 \<le> un)"
    using pd big ne by (auto simp: ParseUint_def)
  then have "ParseInt s = Inl ErrRange"
    using c unfolding ParseInt_def s [symmetric] by (auto simp: s Let_def)
  then show ?thesis by (simp add: Atoi_def)
qed

lemma Atoi_Inr_digits:
  assumes "Atoi s = Inr n"
  shows "strip_sign s \<noteq> [] \<and> list_all is_digit (strip_sign s)"
proof -
  from assms Atoi_nondigit [of s] have d: "list_all is_digit (strip_sign s)" by auto
  from assms have "strip_sign s \<noteq> []"
    by (cases s)
      (auto simp: Atoi_def ParseInt_def ParseUint_def strip_sign_def Let_def split: if_splits)
  with d show ?thesis by simp
qed

text \<open>What \<^verbatim>\<open>Atoi\<close> accepts holds no glob metacharacter and no path separator.\<close>

lemma is_digit_plain_char:
  "is_digit c \<Longrightarrow>
   c \<noteq> CHR ''*'' \<and> c \<noteq> CHR ''?'' \<and> c \<noteq> CHR ''['' \<and> c \<noteq> CHR 0x5C \<and> c \<noteq> CHR ''/''"
  by (auto simp: is_digit_def digit_of_def)

lemma digits_plain: "list_all is_digit s \<Longrightarrow> plain s"
  by (induction s) (auto simp: plain_def hasMeta_def dest: is_digit_plain_char)

lemma plain_Cons: "plain (c # s) = (plain [c] \<and> plain s)"
  by (auto simp: plain_def hasMeta_def)

lemma Atoi_Inr_plain:
  assumes "Atoi s = Inr n"
  shows "plain s"
proof -
  from Atoi_Inr_digits [OF assms] have d: "list_all is_digit (strip_sign s)" by simp
  show ?thesis
  proof (cases s)
    case Nil
    then show ?thesis by (simp add: plain_def hasMeta_def)
  next
    case (Cons c cs)
    show ?thesis
    proof (cases "c = CHR ''+'' \<or> c = CHR ''-''")
      case True
      with d Cons have "plain cs" by (simp add: strip_sign_def digits_plain)
      moreover from True have "plain [c]" by (auto simp: plain_def hasMeta_def)
      ultimately show ?thesis unfolding Cons by (subst plain_Cons) simp
    next
      case False
      with d Cons show ?thesis by (simp add: strip_sign_def digits_plain)
    qed
  qed
qed

subsection \<open>\<^verbatim>\<open>Glob\<close> on the two patterns of the resolver\<close>

lemma plain_no_star: "plain s \<Longrightarrow> \<forall>c\<in>set s. c \<noteq> CHR ''*''"
  by (induction s) (auto simp: plain_def hasMeta_def)

lemma star_pattern_literal:
  assumes "plain pre" and "plain suf"
  shows "star_pattern (Join ''certs'' (pre @ CHR ''*'' # suf)) = Some (pre, suf)"
proof -
  from assms(1) have ns: "\<forall>c\<in>set pre. c \<noteq> CHR ''*''" by (rule plain_no_star)
  then have tw: "takeWhile (\<lambda>c. c \<noteq> CHR ''*'') (pre @ CHR ''*'' # suf) = pre"
    by (simp add: takeWhile_append2)
  from ns have dw: "dropWhile (\<lambda>c. c \<noteq> CHR ''*'') (pre @ CHR ''*'' # suf) = CHR ''*'' # suf"
    by (simp add: dropWhile_append2)
  show ?thesis
    using assms by (simp add: star_pattern_def Join_def tw dw)
qed

lemma plain_ext: "plain ''.crt''" "plain ''.key''"
  by (simp_all add: plain_def hasMeta_def)

lemma Glob_literal:
  assumes "plain crn" and "plain ext"
  shows "Glob env (Join ''certs'' (crn @ CHR ''*'' # ext)) =
     Inr (map (Join ''certs'') (filter (Match_star crn ext) (certs_dir env)))"
  by (simp add: Glob_def star_pattern_literal [OF assms])

text \<open>\<open>Match_star pre suf\<close> holds of the names \<^verbatim>\<open><pre>...<suf>\<close>.\<close>

lemma Match_star_iff:
  "Match_star pre suf name =
     ((\<exists>mid. name = pre @ mid @ suf) \<and> \<not> list_ex (\<lambda>c. c = CHR ''/'') name)"
proof -
  have "(length pre + length suf \<le> length name \<and> take (length pre) name = pre \<and>
         drop (length name - length suf) name = suf) = (\<exists>mid. name = pre @ mid @ suf)"
  proof
    assume a: "length pre + length suf \<le> length name \<and> take (length pre) name = pre \<and>
         drop (length name - length suf) name = suf"
    then have a1: "length pre + length suf \<le> length name"
      and a2: "take (length pre) name = pre"
      and a3: "drop (length name - length suf) name = suf" by blast+
    define rest where "rest = drop (length pre) name"
    define mid where "mid = take (length rest - length suf) rest"
    have n: "name = pre @ rest"
      unfolding rest_def using a2 by (metis append_take_drop_id)
    have len: "length suf \<le> length rest"
      unfolding rest_def using a1 by simp
    have "length name - length suf = length pre + (length rest - length suf)"
      using a1 len by (simp add: rest_def)
    then have "drop (length name - length suf) name = drop (length rest - length suf) rest"
      by (subst n) simp
    with a3 have "drop (length rest - length suf) rest = suf" by simp
    then have "rest = mid @ suf"
      unfolding mid_def by (metis append_take_drop_id)
    with n have "name = pre @ mid @ suf" by simp
    then show "\<exists>mid. name = pre @ mid @ suf" ..
  next
    assume "\<exists>mid. name = pre @ mid @ suf"
    then obtain mid where "name = pre @ mid @ suf" ..
    then show "length pre + length suf \<le> length name \<and> take (length pre) name = pre \<and>
         drop (length name - length suf) name = suf" by simp
  qed
  then show ?thesis by (auto simp: Match_star_def)
qed

subsection \<open>Evaluating the example world\<close>

lemma example_env_sel:
  "json_value example_env = map_of example_bodies"
  "Marshal example_env = example_Marshal"
  "now example_env = ''2026-01-02T03:04:05.000''"
  "certs_dir example_env =
     [''1234_shop.crt'', ''1234_shop.key'', ''555_a.crt'', ''555_b.crt'', ''555_a.key'']"
  "glob_other example_env = (\<lambda>pattern. Inl ''syntax error in pattern'')"
  "stat_not_exist example_env = (\<lambda>path. False)"
  "curl example_env = example_curl"
  by (simp_all add: example_env_def)

lemmas ex_defs =
  example_env_sel example_bodies_def example_Marshal_def example_curl_def post_def

lemmas glob_defs =
  findCertificateFiles_def Glob_def star_pattern_def Join_def plain_def hasMeta_def
  Match_star_def

lemmas atoi_defs = Atoi_def ParseInt_def ParseUint_def digit_of_def cutoff64_def maxUint64_def

lemmas run_defs =
  Let_def handleRequest_def Unmarshal_def runCurlCommand_def checkCertificates_def
  endpoints_def routes_def

lemma primary_not_upload: "primary_args e c k b \<noteq> upload_args c' k' crn"
  by (simp add: primary_args_def upload_args_def)

lemma Atoi_examples:
  "Atoi ''1234'' = Inr 1234"
  "Atoi ''-12'' = Inr (- 12)"
  "Atoi ''+7'' = Inr 7"
  "Atoi ''9223372036854775807'' = Inr 9223372036854775807"
  "Atoi ''9223372036854775808'' = Inl ErrRange"
  "Atoi ''-9223372036854775808'' = Inr (- 9223372036854775808)"
  "Atoi ''12ab'' = Inl ErrSyntax"
  "Atoi '''' = Inl ErrSyntax"
  "Atoi ''-'' = Inl ErrSyntax"
  by (simp_all add: atoi_defs)

lemma findCertificateFiles_example:
  "findCertificateFiles example_env ''1234'' =
     (Inr (''certs/1234_shop.crt'', ''certs/1234_shop.key''),
      [EvGlob ''certs/1234*.crt'', EvGlob ''certs/1234*.key''])"
  by (simp add: glob_defs ex_defs)

section \<open>The request handler\<close>

lemma handleRequest_POST:
  assumes "req_method r = ''POST''" "req_body r = Inr bytes" "Unmarshal env bytes = Inr m"
  shows "handleRequest env r k =
     (case m ''crn'' of
        None \<Rightarrow> (HttpError ''Field 'crn' is missing'' 400, [])
      | Some (JString crn) \<Rightarrow>
          (case Atoi crn of
             Inl _ \<Rightarrow> (HttpError ''Field 'crn' must contain only numbers'' 400, [])
           | Inr _ \<Rightarrow>
               (case runCurlCommand env k m of
                  (Inl err, t) \<Rightarrow> (HttpError (''Error processing request: '' @ err) 500, t)
                | (Inr response, t) \<Rightarrow> (Written 200 response, t)))
      | Some _ \<Rightarrow> (HttpError ''Field 'crn' must be a string'' 400, []))"
  using assms by (simp add: handleRequest_def)

subsection \<open>Validation of \<^verbatim>\<open>crn\<close>\<close>




text \<open>
  C9: a \<^verbatim>\<open>crn\<close> made of decimal digits only whose value is beyond the signed 64-bit
  range (\<open>2 ^ 63\<close> or more) is rejected with status 400 and
  "Field 'crn' must contain only numbers": the validation parses a machine integer.
\<close>

theorem digits_beyond_int64_rejected:
  assumes "req_method r = ''POST''" and "req_body r = Inr bytes"
    and "Unmarshal env bytes = Inr m" and "m ''crn'' = Some (JString crn)"
    and "crn \<noteq> []" and "list_all is_digit crn" and "2 ^ 63 \<le> dec_value crn"
  shows "handleRequest env r k =
     (HttpError ''Field 'crn' must contain only numbers'' 400, [])"
  using assms Atoi_out_of_range [of crn] by (simp add: handleRequest_POST)

theorem digits_beyond_int64_rejected_witness:
  \<open>handleRequest example_env (post ''/print'' ''{"crn":"9223372036854775808"}'') ''print'' =
     (HttpError ''Field 'crn' must contain only numbers'' 400, [])\<close>
  by (rule digits_beyond_int64_rejected
        [where crn = "''9223372036854775808''"
           and bytes = \<open>''{"crn":"9223372036854775808"}''\<close>
           and m = "[''crn'' \<mapsto> JString ''9223372036854775808'']"])
     (simp_all add: post_def Unmarshal_def example_env_sel example_bodies_def
        is_digit_def digit_of_def dec_value_def digit_step_def)

text \<open>
  C6: a POST request that fails validation (the body cannot be read, is not JSON for a
  map, has no \<^verbatim>\<open>crn\<close>, has a \<^verbatim>\<open>crn\<close> that is not a string, or one \<^verbatim>\<open>Atoi\<close> rejects) is
  answered with status 400 and a plain-text message, and no effect is performed: no
  glob, no stat, no \<^verbatim>\<open>curl\<close>.
\<close>

theorem validation_failure_no_effects:
  assumes "req_method r = ''POST''"
    and "(\<exists>e. req_body r = Inl e) \<or>
         (\<exists>bytes. req_body r = Inr bytes \<and>
            ((\<exists>e. Unmarshal env bytes = Inl e) \<or>
             (\<exists>m. Unmarshal env bytes = Inr m \<and>
                (m ''crn'' = None \<or>
                 (\<exists>v. m ''crn'' = Some v \<and> (\<forall>s. v \<noteq> JString s)) \<or>
                 (\<exists>s e. m ''crn'' = Some (JString s) \<and> Atoi s = Inl e)))))"
  shows "\<exists>msg. handleRequest env r k = (HttpError msg 400, [])"
proof -
  from assms(2) consider
      (unreadable) e where "req_body r = Inl e"
    | (malformed) bytes e where "req_body r = Inr bytes" "Unmarshal env bytes = Inl e"
    | (missing) bytes m where "req_body r = Inr bytes" "Unmarshal env bytes = Inr m"
        "m ''crn'' = None"
    | (not_string) bytes m v where "req_body r = Inr bytes" "Unmarshal env bytes = Inr m"
        "m ''crn'' = Some v" "\<forall>s. v \<noteq> JString s"
    | (not_number) bytes m s e where "req_body r = Inr bytes" "Unmarshal env bytes = Inr m"
        "m ''crn'' = Some (JString s)" "Atoi s = Inl e"
    by blast
  then show ?thesis
  proof cases
    case unreadable
    with assms(1) show ?thesis by (simp add: handleRequest_def)
  next
    case malformed
    with assms(1) show ?thesis by (simp add: handleRequest_def)
  next
    case missing
    with assms(1) show ?thesis by (simp add: handleRequest_POST)
  next
    case not_string
    with assms(1) show ?thesis by (cases v) (simp_all add: handleRequest_POST)
  next
    case not_number
    with assms(1) show ?thesis by (simp add: handleRequest_POST)
  qed
qed

theorem validation_failure_no_effects_witness:
  \<open>\<exists>msg. handleRequest example_env (post ''/print'' ''{"crn":"12ab"}'') ''print'' =
     (HttpError msg 400, [])\<close>
  by (rule validation_failure_no_effects)
     (simp_all add: post_def Unmarshal_def example_env_sel example_bodies_def atoi_defs)

text \<open>
  C10: a POST body that is valid JSON but not an object is answered with status 400:
  with "Field 'crn' is missing" when it is \<^verbatim>\<open>null\<close>, with "Invalid JSON" when it is an
  array, a string, a number or a boolean.
\<close>

theorem non_object_body_rejected:
  assumes "req_method r = ''POST''" and "req_body r = Inr bytes"
    and "json_value env bytes = Some v" and "\<forall>members. v \<noteq> JObject members"
  shows "handleRequest env r k =
     (HttpError (if v = JNull then ''Field 'crn' is missing'' else ''Invalid JSON'') 400, [])"
  using assms by (cases v) (simp_all add: handleRequest_def Unmarshal_def)

theorem non_object_body_rejected_witness:
  \<open>handleRequest example_env (post ''/print'' ''null'') ''print'' =
     (HttpError ''Field 'crn' is missing'' 400, []) \<and>
   handleRequest example_env (post ''/print'' ''[1]'') ''print'' =
     (HttpError ''Invalid JSON'' 400, [])\<close>
  using non_object_body_rejected
      [of "post ''/print'' ''null''" "''null''" example_env JNull "''print''"]
    non_object_body_rejected
      [of "post ''/print'' ''[1]''" "''[1]''" example_env "JArray [JNumber 1]" "''print''"]
  by (simp add: post_def example_env_sel example_bodies_def)

section \<open>Credential resolution\<close>

text \<open>
  C2: for a merchant identifier (a string without glob metacharacter or separator, as
  every \<^verbatim>\<open>crn\<close> that passed \<^verbatim>\<open>Atoi\<close> is, by \<open>Atoi_Inr_plain\<close>), resolution returns one
  certificate path and one key path exactly when the store holds exactly one name
  \<^verbatim>\<open><crn>*.crt\<close> and exactly one name \<^verbatim>\<open><crn>*.key\<close>; with any other count of either it
  fails with "certificate or key file not found or multiple files found for crn: <crn>".
\<close>

theorem findCertificateFiles_exactly_one:
  assumes "plain crn"
  shows "fst (findCertificateFiles env crn) =
     (case (filter (Match_star crn ''.crt'') (certs_dir env),
            filter (Match_star crn ''.key'') (certs_dir env)) of
        ([certName], [keyName]) \<Rightarrow> Inr (Join ''certs'' certName, Join ''certs'' keyName)
      | _ \<Rightarrow> Inl (''certificate or key file not found or multiple files found for crn: '' @ crn))"
proof -
  have c: "Glob env (Join ''certs'' (crn @ ''*.crt'')) =
      Inr (map (Join ''certs'') (filter (Match_star crn ''.crt'') (certs_dir env)))"
    using Glob_literal [OF assms plain_ext(1)] by simp
  have k: "Glob env (Join ''certs'' (crn @ ''*.key'')) =
      Inr (map (Join ''certs'') (filter (Match_star crn ''.key'') (certs_dir env)))"
    using Glob_literal [OF assms plain_ext(2)] by simp
  show ?thesis
    unfolding findCertificateFiles_def Let_def c k
    by (auto split: list.splits)
qed

theorem findCertificateFiles_exactly_one_witness:
  "fst (findCertificateFiles example_env ''1234'') =
     Inr (''certs/1234_shop.crt'', ''certs/1234_shop.key'') \<and>
   fst (findCertificateFiles example_env ''555'') =
     Inl ''certificate or key file not found or multiple files found for crn: 555'' \<and>
   fst (findCertificateFiles example_env ''77'') =
     Inl ''certificate or key file not found or multiple files found for crn: 77''"
  using findCertificateFiles_exactly_one [of "''1234''" example_env]
    findCertificateFiles_exactly_one [of "''555''" example_env]
    findCertificateFiles_exactly_one [of "''77''" example_env]
  by (simp add: plain_def hasMeta_def Match_star_def Join_def example_env_sel)

section \<open>The upstream calls\<close>

lemma endpoints_routes: "k \<in> set routes \<Longrightarrow> endpoints k = Some k"
  by (auto simp: endpoints_def routes_def)



lemma runCurlCommand_valid:
  assumes "endpoints k = Some endpoint" and "Marshal env m = Inr jsonBytes"
    and "m ''crn'' = Some (JString crn)" and "Atoi crn = Inr n"
  shows "runCurlCommand env k m =
     (case checkCertificates env crn of
        (Inl err, t) \<Rightarrow> (Inl err, t)
      | (Inr (certPath, keyPath), t) \<Rightarrow>
          (case curl env (primary_args endpoint certPath keyPath jsonBytes) of
             (output, Some err) \<Rightarrow>
               (Inl (''error in '' @ k @ '': '' @ err @ ''\<newline>Response:\<newline>'' @ output),
                t @ [EvExec (primary_args endpoint certPath keyPath jsonBytes)])
           | (output, None) \<Rightarrow>
               (Inr output, t @ [EvExec (primary_args endpoint certPath keyPath jsonBytes)])))"
  using assms unfolding runCurlCommand_def Let_def by simp


lemma execs_append: "execs (t @ u) = execs t @ execs u"
  by (induction t rule: execs.induct) simp_all

lemma findCertificateFiles_execs:
  "findCertificateFiles env crn = (res, t) \<Longrightarrow> execs t = []"
  by (auto simp: findCertificateFiles_def Let_def split: sum.splits if_splits)

lemma checkCertificates_execs_le:
  assumes "checkCertificates env crn = (res, t)"
  shows "length (execs t) \<le> 1"
proof (cases "findCertificateFiles env crn")
  case (Pair fres ft)
  then have ft: "execs ft = []" by (rule findCertificateFiles_execs)
  from assms Pair have "t = ft \<or> (\<exists>e. t = ft @ [e]) \<or> (\<exists>e e'. t = ft @ [e, e']) \<or>
      (\<exists>e e' e''. t = ft @ [e, e', e''] \<and> execs [e, e'] = [])"
    unfolding checkCertificates_def Let_def
    by (auto split: sum.splits prod.splits if_splits option.splits)
  then show ?thesis
  proof (elim disjE exE conjE)
    assume "t = ft"
    with ft show ?thesis by simp
  next
    fix e assume "t = ft @ [e]"
    with ft show ?thesis by (cases e) (simp_all add: execs_append)
  next
    fix e e' assume "t = ft @ [e, e']"
    from assms Pair this have "execs [e, e'] = []"
      unfolding checkCertificates_def Let_def
      by (auto split: sum.splits prod.splits if_splits option.splits)
    with ft \<open>t = ft @ [e, e']\<close> show ?thesis by (simp add: execs_append)
  next
    fix e e' e'' assume t: "t = ft @ [e, e', e'']" and "execs [e, e'] = []"
    then have "execs [e, e', e''] = execs [e'']"
      by (cases e; cases e') simp_all
    then have "length (execs [e, e', e'']) \<le> 1" by (cases e'') simp_all
    with ft t show ?thesis by (simp add: execs_append)
  qed
qed

lemma checkCertificates_Inr:
  assumes "checkCertificates env crn = (Inr (certPath, keyPath), t)"
  shows "execs t = [upload_args certPath keyPath crn]"
proof (cases "findCertificateFiles env crn")
  case (Pair fres ft)
  then have ft: "execs ft = []" by (rule findCertificateFiles_execs)
  from assms Pair have
    "t = ft @ [EvStat certPath, EvStat keyPath, EvExec (upload_args certPath keyPath crn)]"
    unfolding checkCertificates_def Let_def
    by (auto split: sum.splits prod.splits if_splits option.splits)
  with ft show ?thesis by (simp add: execs_append)
qed

lemma runCurlCommand_invalid:
  assumes "runCurlCommand env k m = (res, t)"
    and "\<not> (\<exists>endpoint jsonBytes crn n. endpoints k = Some endpoint \<and>
           Marshal env m = Inr jsonBytes \<and> m ''crn'' = Some (JString crn) \<and> Atoi crn = Inr n)"
  shows "t = [] \<and> (\<exists>e. res = Inl e)"
  using assms unfolding runCurlCommand_def
  by (auto split: option.splits sum.splits json.splits)

lemma runCurlCommand_two_execs:
  assumes rc: "runCurlCommand env k m = (res, t)"
    and two: "execs t = [up, prim]"
    and ok: "curl env prim = (output, None)"
  shows "res = Inr output"
proof (cases "\<exists>endpoint jsonBytes crn n. endpoints k = Some endpoint \<and>
    Marshal env m = Inr jsonBytes \<and> m ''crn'' = Some (JString crn) \<and> Atoi crn = Inr n")
  case False
  with rc have "t = []" using runCurlCommand_invalid by blast
  with two show ?thesis by simp
next
  case True
  then obtain endpoint jsonBytes crn n where v: "endpoints k = Some endpoint"
    "Marshal env m = Inr jsonBytes" "m ''crn'' = Some (JString crn)" "Atoi crn = Inr n"
    by blast
  note valid = runCurlCommand_valid [OF v]
  obtain cres ct where cc: "checkCertificates env crn = (cres, ct)"
    by (cases "checkCertificates env crn")
  show ?thesis
  proof (cases cres)
    case (Inl e)
    with rc valid cc have "t = ct" by simp
    with checkCertificates_execs_le [OF cc] two show ?thesis by simp
  next
    case (Inr paths)
    obtain certPath keyPath where paths: "paths = (certPath, keyPath)" by (cases paths)
    define P where "P = primary_args endpoint certPath keyPath jsonBytes"
    from cc Inr paths have cc': "checkCertificates env crn = (Inr (certPath, keyPath), ct)"
      by simp
    have t: "t = ct @ [EvExec P]"
      using rc valid cc' by (simp add: P_def split: prod.splits option.splits)
    with checkCertificates_Inr [OF cc'] two have "prim = P" by (simp add: execs_append)
    with ok have "curl env (primary_args endpoint certPath keyPath jsonBytes) = (output, None)"
      by (simp add: P_def)
    with rc valid cc' show ?thesis by simp
  qed
qed

lemma handleRequest_effects:
  assumes "handleRequest env r k = (resp, t)" and "t \<noteq> []"
  shows "\<exists>m res. runCurlCommand env k m = (res, t) \<and>
           resp = (case res of
                     Inl err \<Rightarrow> HttpError (''Error processing request: '' @ err) 500
                   | Inr response \<Rightarrow> Written 200 response)"
  using assms unfolding handleRequest_def Let_def
  by (auto split: if_splits sum.splits prod.splits option.splits json.splits)

lemma handleRequest_example:
  \<open>handleRequest example_env (post ''/checkConnection'' ''{"crn":"1234"}'') ''checkConnection'' =
   (Written 200 ''{"connected":true}'',
    [EvGlob ''certs/1234*.crt'', EvGlob ''certs/1234*.key'',
     EvStat ''certs/1234_shop.crt'', EvStat ''certs/1234_shop.key'',
     EvExec (upload_args ''certs/1234_shop.crt'' ''certs/1234_shop.key'' ''1234''),
     EvExec (primary_args ''checkConnection'' ''certs/1234_shop.crt'' ''certs/1234_shop.key''
               ''{"crn":"1234"}'')])\<close>
  by (simp add: run_defs findCertificateFiles_example Atoi_examples ex_defs primary_not_upload)





text \<open>
  C7: whenever the handler issued exactly the upload and then the primary call and both
  returned without error, the local response has status 200 and its body is the output
  of the primary call, byte for byte.
\<close>

theorem success_relays_body:
  assumes "handleRequest env r k = (resp, t)"
    and "execs t = [up, prim]"
    and "curl env up = (uploadOutput, None)"
    and "curl env prim = (output, None)"
  shows "resp = Written 200 output \<and> status resp = 200 \<and> body resp = output"
proof -
  from assms(2) have ne: "t \<noteq> []" by auto
  from handleRequest_effects [OF assms(1) ne] obtain m res
    where rc: "runCurlCommand env k m = (res, t)"
      and resp: "resp = (case res of
                     Inl err \<Rightarrow> HttpError (''Error processing request: '' @ err) 500
                   | Inr response \<Rightarrow> Written 200 response)"
    by blast
  from runCurlCommand_two_execs [OF rc assms(2,4)] have "res = Inr output" .
  with resp have "resp = Written 200 output" by simp
  then show ?thesis by simp
qed

theorem success_relays_body_witness:
  \<open>fst (handleRequest example_env (post ''/checkConnection'' ''{"crn":"1234"}'')
      ''checkConnection'') = Written 200 ''{"connected":true}'' \<and>
   status (fst (handleRequest example_env (post ''/checkConnection'' ''{"crn":"1234"}'')
      ''checkConnection'')) = 200 \<and>
   body (fst (handleRequest example_env (post ''/checkConnection'' ''{"crn":"1234"}'')
      ''checkConnection'')) = ''{"connected":true}''\<close>
proof -
  let ?up = "upload_args ''certs/1234_shop.crt'' ''certs/1234_shop.key'' ''1234''"
  let ?prim = \<open>primary_args ''checkConnection'' ''certs/1234_shop.crt''
      ''certs/1234_shop.key'' ''{"crn":"1234"}''\<close>
  let ?run = \<open>handleRequest example_env (post ''/checkConnection'' ''{"crn":"1234"}'')
      ''checkConnection''\<close>
  have run: "?run = (fst ?run, snd ?run)" by simp
  have calls: "execs (snd ?run) = [?up, ?prim]" by (simp add: handleRequest_example)
  have up: \<open>curl example_env ?up = (''{"uploaded":true}'', None)\<close>
    by (simp add: example_env_sel example_curl_def)
  have prim: \<open>curl example_env ?prim = (''{"connected":true}'', None)\<close>
    by (simp add: example_env_sel example_curl_def primary_not_upload)
  show ?thesis by (rule success_relays_body [OF run calls up prim])
qed

section \<open>The two layers of validation\<close>

lemma status_relay:
  "status (fst (case x of
      (Inl err, t) \<Rightarrow> (HttpError (''Error processing request: '' @ err) 500, t)
    | (Inr response, t) \<Rightarrow> (Written 200 response, t))) \<noteq> 400"
  by (cases x) (auto split: sum.splits)

text \<open>
  C8: the presence, the string type and the \<^verbatim>\<open>Atoi\<close> parse of \<^verbatim>\<open>crn\<close> are checked by the
  handler and again by the call builder. For each of the nine operations and every map
  that serializes, the builder itself returns "field 'crn' is missing" when the key is
  absent, "field 'crn' must be a string" when its value is not a string and
  "field 'crn' must contain only numbers" when \<^verbatim>\<open>Atoi\<close> rejects it, each without any
  effect; on a request that decodes to that map the handler answers the same three cases
  with status 400 and the matching message, and answers no other case with status 400.
\<close>

theorem crn_checked_at_both_layers:
  assumes "k \<in> set routes" and "Marshal env m = Inr jsonBytes"
  shows
    "(m ''crn'' = None \<longrightarrow>
        runCurlCommand env k m = (Inl ''field 'crn' is missing'', [])) \<and>
     ((\<exists>v. m ''crn'' = Some v \<and> (\<forall>s. v \<noteq> JString s)) \<longrightarrow>
        runCurlCommand env k m = (Inl ''field 'crn' must be a string'', [])) \<and>
     ((\<exists>s e. m ''crn'' = Some (JString s) \<and> Atoi s = Inl e) \<longrightarrow>
        runCurlCommand env k m = (Inl ''field 'crn' must contain only numbers'', [])) \<and>
     (req_method r = ''POST'' \<and> req_body r = Inr bytes \<and> Unmarshal env bytes = Inr m \<longrightarrow>
        (m ''crn'' = None \<longrightarrow>
           handleRequest env r k = (HttpError ''Field 'crn' is missing'' 400, [])) \<and>
        ((\<exists>v. m ''crn'' = Some v \<and> (\<forall>s. v \<noteq> JString s)) \<longrightarrow>
           handleRequest env r k = (HttpError ''Field 'crn' must be a string'' 400, [])) \<and>
        ((\<exists>s e. m ''crn'' = Some (JString s) \<and> Atoi s = Inl e) \<longrightarrow>
           handleRequest env r k =
             (HttpError ''Field 'crn' must contain only numbers'' 400, [])) \<and>
        ((\<exists>s n. m ''crn'' = Some (JString s) \<and> Atoi s = Inr n) \<longrightarrow>
           status (fst (handleRequest env r k)) \<noteq> 400))"
proof -
  note ep = endpoints_routes [OF assms(1)]
  have b1: "m ''crn'' = None \<longrightarrow>
        runCurlCommand env k m = (Inl ''field 'crn' is missing'', [])"
    using ep assms(2) by (simp add: runCurlCommand_def)
  have b2: "(\<exists>v. m ''crn'' = Some v \<and> (\<forall>s. v \<noteq> JString s)) \<longrightarrow>
        runCurlCommand env k m = (Inl ''field 'crn' must be a string'', [])"
  proof (intro impI, elim exE conjE)
    fix v assume "m ''crn'' = Some v" "\<forall>s. v \<noteq> JString s"
    then show "runCurlCommand env k m = (Inl ''field 'crn' must be a string'', [])"
      using ep assms(2) by (cases v) (simp_all add: runCurlCommand_def)
  qed
  have b3: "(\<exists>s e. m ''crn'' = Some (JString s) \<and> Atoi s = Inl e) \<longrightarrow>
        runCurlCommand env k m = (Inl ''field 'crn' must contain only numbers'', [])"
    using ep assms(2) by (auto simp: runCurlCommand_def)
  have h: "req_method r = ''POST'' \<and> req_body r = Inr bytes \<and> Unmarshal env bytes = Inr m \<longrightarrow>
        (m ''crn'' = None \<longrightarrow>
           handleRequest env r k = (HttpError ''Field 'crn' is missing'' 400, [])) \<and>
        ((\<exists>v. m ''crn'' = Some v \<and> (\<forall>s. v \<noteq> JString s)) \<longrightarrow>
           handleRequest env r k = (HttpError ''Field 'crn' must be a string'' 400, [])) \<and>
        ((\<exists>s e. m ''crn'' = Some (JString s) \<and> Atoi s = Inl e) \<longrightarrow>
           handleRequest env r k =
             (HttpError ''Field 'crn' must contain only numbers'' 400, [])) \<and>
        ((\<exists>s n. m ''crn'' = Some (JString s) \<and> Atoi s = Inr n) \<longrightarrow>
           status (fst (handleRequest env r k)) \<noteq> 400)"
  proof (intro impI, elim conjE)
    assume r: "req_method r = ''POST''" "req_body r = Inr bytes" "Unmarshal env bytes = Inr m"
    note hr = handleRequest_POST [OF r, of k]
    have h1: "m ''crn'' = None \<longrightarrow>
           handleRequest env r k = (HttpError ''Field 'crn' is missing'' 400, [])"
      by (simp add: hr)
    have h2: "(\<exists>v. m ''crn'' = Some v \<and> (\<forall>s. v \<noteq> JString s)) \<longrightarrow>
           handleRequest env r k = (HttpError ''Field 'crn' must be a string'' 400, [])"
    proof (intro impI, elim exE conjE)
      fix v assume "m ''crn'' = Some v" "\<forall>s. v \<noteq> JString s"
      then show "handleRequest env r k = (HttpError ''Field 'crn' must be a string'' 400, [])"
        by (cases v) (simp_all add: hr)
    qed
    have h3: "(\<exists>s e. m ''crn'' = Some (JString s) \<and> Atoi s = Inl e) \<longrightarrow>
           handleRequest env r k =
             (HttpError ''Field 'crn' must contain only numbers'' 400, [])"
      by (auto simp: hr)
    have h4: "(\<exists>s n. m ''crn'' = Some (JString s) \<and> Atoi s = Inr n) \<longrightarrow>
           status (fst (handleRequest env r k)) \<noteq> 400"
      by (auto simp: hr status_relay)
    from h1 h2 h3 h4 show "(m ''crn'' = None \<longrightarrow>
           handleRequest env r k = (HttpError ''Field 'crn' is missing'' 400, [])) \<and>
        ((\<exists>v. m ''crn'' = Some v \<and> (\<forall>s. v \<noteq> JString s)) \<longrightarrow>
           handleRequest env r k = (HttpError ''Field 'crn' must be a string'' 400, [])) \<and>
        ((\<exists>s e. m ''crn'' = Some (JString s) \<and> Atoi s = Inl e) \<longrightarrow>
           handleRequest env r k =
             (HttpError ''Field 'crn' must contain only numbers'' 400, [])) \<and>
        ((\<exists>s n. m ''crn'' = Some (JString s) \<and> Atoi s = Inr n) \<longrightarrow>
           status (fst (handleRequest env r k)) \<noteq> 400)" by blast
  qed
  from b1 b2 b3 h show ?thesis by blast
qed

theorem crn_checked_at_both_layers_witness:
  \<open>runCurlCommand example_env ''print'' Map.empty = (Inl ''field 'crn' is missing'', []) \<and>
   handleRequest example_env (post ''/print'' ''{}'') ''print'' =
     (HttpError ''Field 'crn' is missing'' 400, []) \<and>
   runCurlCommand example_env ''print'' [''crn'' \<mapsto> JNumber 1234] =
     (Inl ''field 'crn' must be a string'', []) \<and>
   handleRequest example_env (post ''/print'' ''{"crn":1234}'') ''print'' =
     (HttpError ''Field 'crn' must be a string'' 400, []) \<and>
   runCurlCommand example_env ''print'' [''crn'' \<mapsto> JString ''12ab''] =
     (Inl ''field 'crn' must contain only numbers'', []) \<and>
   handleRequest example_env (post ''/print'' ''{"crn":"12ab"}'') ''print'' =
     (HttpError ''Field 'crn' must contain only numbers'' 400, [])\<close>
  using crn_checked_at_both_layers
      [where env = example_env and k = "''print''" and m = Map.empty
         and jsonBytes = "''{}''" and r = "post ''/print'' ''{}''" and bytes = "''{}''"]
    crn_checked_at_both_layers
      [where env = example_env and k = "''print''" and m = "[''crn'' \<mapsto> JNumber 1234]"
         and jsonBytes = \<open>''{"crn":1234}''\<close> and r = \<open>post ''/print'' ''{"crn":1234}''\<close>
         and bytes = \<open>''{"crn":1234}''\<close>]
    crn_checked_at_both_layers
      [where env = example_env and k = "''print''" and m = "[''crn'' \<mapsto> JString ''12ab'']"
         and jsonBytes = \<open>''{"crn":"12ab"}''\<close> and r = \<open>post ''/print'' ''{"crn":"12ab"}''\<close>
         and bytes = \<open>''{"crn":"12ab"}''\<close>]
  by (simp add: routes_def post_def Unmarshal_def example_env_sel example_bodies_def
        example_Marshal_def Atoi_examples)

section \<open>The method check\<close>

lemma handleRequest_not_POST:
  assumes "req_method r \<noteq> ''POST''"
  shows "handleRequest env r k =
     (case Marshal env (errorResponse (now env @ ''+0000'') (req_path r)) of
        Inl err \<Rightarrow> (HttpError ''Error marshaling JSON'' 500, [])
      | Inr jsonResponse \<Rightarrow> (Written 405 jsonResponse, []))"
  using assms by (simp add: handleRequest_def Let_def)

lemma errorResponse_fields:
  "errorResponse t p ''timestamp'' = Some (JString t)"
  "errorResponse t p ''status'' = Some (JNumber 405)"
  "errorResponse t p ''error'' = Some (JString ''Method Not Allowed'')"
  "errorResponse t p ''message'' = Some (JString ''Request method 'GET' not supported'')"
  "errorResponse t p ''path'' = Some (JString p)"
  "errorResponse t p ''crn'' = None"
  by (simp_all add: errorResponse_def)

text \<open>
  C4, at a request the code answers otherwise than the claim says. A \<^verbatim>\<open>PUT\<close> on
  \<^verbatim>\<open>/print\<close> is answered with status 405 and an object with the timestamp, the status
  405, the label "Method Not Allowed" and the path, as claimed, but its message is the
  constant "Request method 'GET' not supported": it names \<^verbatim>\<open>GET\<close>, not the rejected
  method.
\<close>

theorem put_rejected_as_GET:
  \<open>handleRequest example_env
     \<lparr>req_method = ''PUT'', req_path = ''/print'', req_body = Inr ''{"crn":"1234"}''\<rparr> ''print'' =
   (Written 405
      (''{"error":"Method Not Allowed","message":"Request method 'GET' not supported",'' @
       ''"path":"/print","status":405,"timestamp":"2026-01-02T03:04:05.000+0000"}''), [])\<close>
  by (simp add: handleRequest_not_POST errorResponse_fields example_env_sel example_Marshal_def)

end
